theory Spec2Isabelle
  imports Complex_Main
begin

section \<open>Values, errors and effects\<close>

text \<open>
  The task works on Python numbers: the pixel array holds floating-point values, the
  metadata holds integer or floating-point scalars, and \<open>int(...)\<close> produces a Python
  integer. Floating-point values are idealised as real numbers: rounding, NaN and the
  infinities are outside this model. A Python \<open>int\<close> is unbounded, hence \<open>int\<close>.
\<close>

datatype scalar = PyInt int | PyFloat real

text \<open>The conversion pybind11 applies when a Python number is passed as a C++ double,
  and the one Python applies when a number is compared with a float literal.\<close>

fun as_float :: "scalar \<Rightarrow> real" where
  "as_float (PyInt n) = of_int n"
| "as_float (PyFloat x) = x"

text \<open>Python's \<open>int(x)\<close> on a float truncates towards zero.\<close>

definition py_int :: "real \<Rightarrow> int" where
  "py_int x = (if 0 \<le> x then \<lfloor>x\<rfloor> else \<lceil>x\<rceil>)"

text \<open>The integer that \<open>"%d" % v\<close> prints.\<close>

fun format_d :: "scalar \<Rightarrow> int" where
  "format_d (PyInt n) = n"
| "format_d (PyFloat x) = py_int x"

text \<open>
  The exceptions the task can raise, under the names the specification gives them:
  \<open>UnsupportedCorrection\<close> is the \<open>ValueError\<close> of line 62, \<open>MissingMetadata k\<close> the
  \<open>KeyError\<close> of \<open>getScalar\<close> on an absent key \<open>k\<close>, \<open>UnexpectedAmplifier n\<close> the
  \<open>ValueError\<close> of line 111 with the amplifier's name; \<open>ZeroSizeArray\<close> is the
  \<open>ValueError\<close> of \<open>np.max\<close> on an array without elements and \<open>BadRange\<close> the one of
  \<open>np.histogram\<close> on a range whose upper end is below its lower end.
\<close>

datatype error =
    UnsupportedCorrection
  | MissingMetadata string
  | UnexpectedAmplifier string
  | ZeroSizeArray
  | BadRange

text \<open>What a run does that an observer could see, in the order it does it.\<close>

datatype event =
    ConvertIntToFloat
  | NpMax
  | NpHistogram
  | GetScalar string
  | LogInfo int
  | RebuildDetector
  | RebuildAmplifier string
  | SetDetector
  | IsrTaskRun

text \<open>A computation yields the events it performed and then a value or the exception
  that ended it; the events before an exception are kept.\<close>

type_synonym 'a result = "event list \<times> (error + 'a)"

definition ok :: "'a \<Rightarrow> 'a result" where
  "ok v = ([], Inr v)"

definition raise :: "error \<Rightarrow> 'a result" where
  "raise e = ([], Inl e)"

definition emit :: "event \<Rightarrow> unit result" where
  "emit ev = ([ev], Inr ())"

definition and_then :: "'a result \<Rightarrow> ('a \<Rightarrow> 'b result) \<Rightarrow> 'b result" where
  "and_then m f =
     (case m of
        (t, Inl e) \<Rightarrow> (t, Inl e)
      | (t, Inr v) \<Rightarrow> (case f v of (t', r) \<Rightarrow> (t @ t', r)))"

section \<open>Configuration, metadata, amplifiers, exposure\<close>

record CfhtIsrTaskConfig =
  safe :: real

definition default_config :: CfhtIsrTaskConfig where
  "default_config = \<lparr>safe = 95 / 100\<rparr>"

type_synonym metadata = "string \<rightharpoonup> scalar"

text \<open>\<open>PropertyList.getScalar\<close>: the value under the key, \<open>KeyError\<close> when there is none.\<close>

definition getScalar :: "metadata \<Rightarrow> string \<Rightarrow> scalar result" where
  "getScalar md k =
     (case md k of
        None \<Rightarrow> ([GetScalar k], Inl (MissingMetadata k))
      | Some v \<Rightarrow> ([GetScalar k], Inr v))"

text \<open>
  An amplifier record: its name, the three calibration values the task writes (C++
  doubles), and every other field (bounding boxes, readout corner, linearity, ...) in
  the record's extension.
\<close>

record amplifier =
  name :: string
  saturation :: real
  gain :: real
  readNoise :: real

record 'z exposure =
  image :: "real list list"
  metadata :: metadata
  detector :: "'z amplifier_scheme list"

text \<open>A brighter-fatter kernel is an array of floats; the task only asks whether one
  was given.\<close>

type_synonym kernel = "real list list"

section \<open>The numpy operations the task calls\<close>

definition ravel :: "real list list \<Rightarrow> real list" where
  "ravel imageArray = concat imageArray"

definition np_max :: "real list list \<Rightarrow> real result" where
  "np_max imageArray =
     (case ravel imageArray of
        [] \<Rightarrow> ([NpMax], Inl ZeroSizeArray)
      | x # xs \<Rightarrow> ([NpMax], Inr (fold max xs x)))"

text \<open>\<open>np.linspace(start, stop, num)\<close> for \<open>num > 1\<close>: \<open>num - 1\<close> equal steps from
  \<open>start\<close>, the last point set to \<open>stop\<close> itself.\<close>

definition linspace :: "real \<Rightarrow> real \<Rightarrow> nat \<Rightarrow> real list" where
  "linspace start stop num =
     map (\<lambda>k. real k * ((stop - start) / real (num - 1)) + start) [0..<num - 1] @ [stop]"

text \<open>
  The bin of one value in numpy's equal-width path: scale the offset from the first
  edge, truncate, move a value on the last edge into the last bin, then the two
  corrections against the edges themselves.
\<close>

definition bin_index :: "real list \<Rightarrow> real \<Rightarrow> real \<Rightarrow> nat \<Rightarrow> real \<Rightarrow> nat" where
  "bin_index bin_edges first_edge last_edge n a =
     (let f_index = (a - first_edge) / (last_edge - first_edge) * real n;
          i0 = nat (py_int f_index);
          i1 = (if i0 = n then i0 - 1 else i0);
          i2 = (if a < bin_edges ! i1 then i1 - 1 else i1);
          i3 = (if bin_edges ! (i2 + 1) \<le> a \<and> i2 \<noteq> n - 1 then i2 + 1 else i2)
      in i3)"

text \<open>\<open>np.bincount(x, minlength)\<close>: how often each index occurs.\<close>

definition bincount :: "nat list \<Rightarrow> nat \<Rightarrow> nat list" where
  "bincount x minlength = map (count_list x) [0..<max minlength (fold max (map Suc x) 0)]"

text \<open>\<open>np.histogram(a, bins, range)\<close> with an integer \<open>bins\<close> and an explicit range:
  values outside the range are dropped, the counts and the \<open>bins + 1\<close> edges are
  returned.\<close>

definition np_histogram ::
  "real list \<Rightarrow> nat \<Rightarrow> real \<times> real \<Rightarrow> (nat list \<times> real list) result" where
  "np_histogram a bins rng =
     (case rng of (lo, hi) \<Rightarrow>
        if hi < lo then ([NpHistogram], Inl BadRange)
        else
          (let first_edge = (if lo = hi then lo - 1 / 2 else lo);
               last_edge = (if lo = hi then hi + 1 / 2 else hi);
               bin_edges = linspace first_edge last_edge (bins + 1);
               keep = filter (\<lambda>x. first_edge \<le> x \<and> x \<le> last_edge) a;
               indices = map (bin_index bin_edges first_edge last_edge bins) keep
           in ([NpHistogram], Inr (bincount indices bins, bin_edges))))"

text \<open>\<open>np.argmax\<close> on the counts: the first position that holds the largest count.\<close>

definition np_argmax :: "nat list \<Rightarrow> nat" where
  "np_argmax hist = length (takeWhile (\<lambda>c. c \<noteq> fold max hist 0) hist)"

section \<open>The task\<close>

text \<open>Lines 76 to 81: the value of the variable \<open>saturate\<close>.\<close>

definition saturate :: "CfhtIsrTaskConfig \<Rightarrow> metadata \<Rightarrow> real list list \<Rightarrow> scalar result" where
  "saturate config md imageArray =
     and_then (np_max imageArray) (\<lambda>maxValue.
       if maxValue > 60000 then
         and_then (np_histogram (ravel imageArray) 100 (60000, maxValue + 1))
           (\<lambda>(hist, bin_edges).
              ok (PyInt (py_int (safe config * bin_edges ! np_argmax hist))))
       else getScalar md ''SATURATE'')"

text \<open>Lines 87 to 111: the body of the loop, the value of \<open>tempAmp\<close> for one amplifier.\<close>

definition tempAmp ::
  "metadata \<Rightarrow> scalar \<Rightarrow> 'z amplifier_scheme \<Rightarrow> 'z amplifier_scheme result" where
  "tempAmp md sat amp =
     and_then (emit (RebuildAmplifier (name amp))) (\<lambda>_.
       let t = amp\<lparr>saturation := as_float sat\<rparr> in
       if name t = ''A'' then
         and_then (getScalar md ''GAINA'') (\<lambda>g.
         and_then (getScalar md ''RDNOISEA'') (\<lambda>rdnA.
         and_then (if as_float rdnA > 60000 then getScalar md ''RDNOISE'' else ok rdnA) (\<lambda>rdnA.
           ok (t\<lparr>gain := as_float g, readNoise := as_float rdnA\<rparr>))))
       else if name t = ''B'' then
         and_then (getScalar md ''GAINB'') (\<lambda>g.
         and_then (getScalar md ''RDNOISEB'') (\<lambda>rdnB.
         and_then (if as_float rdnB > 60000 then getScalar md ''RDNOISE'' else ok rdnB) (\<lambda>rdnB.
           ok (t\<lparr>gain := as_float g, readNoise := as_float rdnB\<rparr>))))
       else raise (UnexpectedAmplifier (name amp)))"

text \<open>Lines 86 to 112: the loop over the amplifiers of the detector, appending each
  repaired record to the builder \<open>tempCcd\<close>.\<close>

fun tempCcd ::
  "metadata \<Rightarrow> scalar \<Rightarrow> 'z amplifier_scheme list \<Rightarrow> 'z amplifier_scheme list
     \<Rightarrow> 'z amplifier_scheme list result" where
  "tempCcd md sat [] built = ok built"
| "tempCcd md sat (amp # amps) built =
     and_then (tempAmp md sat amp) (\<lambda>t. tempCcd md sat amps (built @ [t]))"

text \<open>
  \<open>run\<close>: the exposure object as the call leaves it, the events, and either the
  exception or the pass-through inputs handed on to \<open>IsrTask.run\<close> together with that
  exposure. \<open>IsrTask.run\<close> and \<open>convertIntToFloat\<close> belong to the base pipeline;
  the conversion leaves pixel values and metadata as they are.
\<close>

definition run ::
  "CfhtIsrTaskConfig \<Rightarrow> 'z exposure \<Rightarrow> 'c \<Rightarrow> kernel option \<Rightarrow> 'z exposure \<times> 'c result" where
  "run config ccdExposure passthrough bfKernel =
     (if bfKernel \<noteq> None then (ccdExposure, raise UnsupportedCorrection)
      else
        (let ccd = detector ccdExposure;
             md = metadata ccdExposure;
             imageArray = image ccdExposure;
             built =
               and_then (emit ConvertIntToFloat) (\<lambda>_.
               and_then (saturate config md imageArray) (\<lambda>sat.
               and_then (emit (LogInfo (format_d sat))) (\<lambda>_.
               and_then (emit RebuildDetector) (\<lambda>_.
                 tempCcd md sat ccd []))))
         in case built of
              (t, Inl e) \<Rightarrow> (ccdExposure, (t, Inl e))
            | (t, Inr amps) \<Rightarrow>
                (ccdExposure\<lparr>detector := amps\<rparr>,
                 (t @ [SetDetector, IsrTaskRun], Inr passthrough))))"

text \<open>
  The read noise the loop body settles on for the amplifier whose noise key is \<open>k\<close>:
  the value under \<open>k\<close>, replaced by the value under \<open>RDNOISE\<close> when it exceeds
  60000; a summary of lines 91 to 97 and 101 to 108 used to state what \<open>tempAmp\<close> returns.
\<close>

definition noise :: "metadata \<Rightarrow> string \<Rightarrow> error + scalar" where
  "noise md k =
     (case md k of
        None \<Rightarrow> Inl (MissingMetadata k)
      | Some r \<Rightarrow>
          if as_float r > 60000
          then (case md ''RDNOISE'' of None \<Rightarrow> Inl (MissingMetadata ''RDNOISE'') | Some f \<Rightarrow> Inr f)
          else Inr r)"

section \<open>The histogram as the specification words it\<close>

text \<open>
  The specification speaks of a histogram of \<open>n\<close> bins of equal width over a range
  \<open>[lo, hi]\<close>, of the count of each bin, of the bin with the highest count and of that
  bin's lower edge. These definitions follow those words: bin \<open>k\<close> holds the values from
  its lower edge up to, and excluding, the next edge, the last bin including \<open>hi\<close>; the
  peak is the first bin that no other bin exceeds.
\<close>

definition spec_bin_edge :: "real \<Rightarrow> real \<Rightarrow> nat \<Rightarrow> nat \<Rightarrow> real" where
  "spec_bin_edge lo hi n k = lo + real k * ((hi - lo) / real n)"

definition spec_in_bin :: "real \<Rightarrow> real \<Rightarrow> nat \<Rightarrow> nat \<Rightarrow> real \<Rightarrow> bool" where
  "spec_in_bin lo hi n k x =
     (spec_bin_edge lo hi n k \<le> x \<and>
      (if k + 1 = n then x \<le> hi else x < spec_bin_edge lo hi n (k + 1)))"

definition spec_hist :: "real \<Rightarrow> real \<Rightarrow> nat \<Rightarrow> real list \<Rightarrow> nat list" where
  "spec_hist lo hi n xs = map (\<lambda>k. length (filter (spec_in_bin lo hi n k) xs)) [0..<n]"

definition spec_peak :: "nat list \<Rightarrow> nat \<Rightarrow> bool" where
  "spec_peak hist k =
     (k < length hist \<and> (\<forall>j \<in> {0..<length hist}. hist ! j \<le> hist ! k) \<and>
      (\<forall>j \<in> {0..<k}. hist ! j < hist ! k))"

section \<open>Example inputs\<close>

text \<open>
  A metadata record with every key the task reads (the read noise of amplifier A holds
  the corrupted value 65535), a detector of two amplifiers, an exposure whose pixels stay
  far below 60000, and an exposure whose detector has an amplifier named C and whose
  metadata holds nothing but \<open>SATURATE\<close>.
\<close>

definition example_metadata :: metadata where
  "example_metadata =
     [''SATURATE'' \<mapsto> PyInt 65535,
      ''GAINA'' \<mapsto> PyFloat (162 / 100), ''GAINB'' \<mapsto> PyFloat (157 / 100),
      ''RDNOISEA'' \<mapsto> PyInt 65535, ''RDNOISEB'' \<mapsto> PyFloat (48 / 10),
      ''RDNOISE'' \<mapsto> PyFloat (52 / 10)]"

definition example_detector :: "amplifier list" where
  "example_detector =
     [\<lparr>name = ''A'', saturation = 0, gain = 1, readNoise = 0\<rparr>,
      \<lparr>name = ''B'', saturation = 0, gain = 1, readNoise = 0\<rparr>]"

definition example_exposure :: "unit exposure" where
  "example_exposure =
     \<lparr>image = [[1000, 2000], [3000, 4000]], metadata = example_metadata,
      detector = example_detector\<rparr>"

definition unexpected_exposure :: "unit exposure" where
  "unexpected_exposure =
     \<lparr>image = [[1000]], metadata = [''SATURATE'' \<mapsto> PyInt 65535],
      detector =
        [\<lparr>name = ''A'', saturation = 0, gain = 1, readNoise = 0\<rparr>,
         \<lparr>name = ''C'', saturation = 0, gain = 1, readNoise = 0\<rparr>]\<rparr>"

section \<open>Results and events of the building blocks\<close>

lemma snd_and_then:
  "snd (and_then m f) = (case snd m of Inl e \<Rightarrow> Inl e | Inr v \<Rightarrow> snd (f v))"
  by (simp add: and_then_def split: prod.splits sum.splits)

lemma fst_and_then:
  "fst (and_then m f) = (case snd m of Inl e \<Rightarrow> fst m | Inr v \<Rightarrow> fst m @ fst (f v))"
  by (simp add: and_then_def split: prod.splits sum.splits)

lemma snd_ok: "snd (ok v) = Inr v" by (simp add: ok_def)

lemma fst_ok: "fst (ok v) = []" by (simp add: ok_def)

lemma snd_raise: "snd (raise e) = Inl e" by (simp add: raise_def)

lemma snd_emit: "snd (emit ev) = Inr ()" by (simp add: emit_def)

lemma fst_emit: "fst (emit ev) = [ev]" by (simp add: emit_def)

lemma snd_getScalar:
  "snd (getScalar md k) = (case md k of None \<Rightarrow> Inl (MissingMetadata k) | Some v \<Rightarrow> Inr v)"
  by (simp add: getScalar_def split: option.splits)

lemma fst_getScalar: "fst (getScalar md k) = [GetScalar k]"
  by (simp add: getScalar_def split: option.splits)

lemmas result_simps = snd_and_then snd_ok snd_raise snd_emit snd_getScalar

lemma snd_tempAmp_A:
  assumes "name amp = ''A''"
  shows "snd (tempAmp md sat amp) =
     (case md ''GAINA'' of
        None \<Rightarrow> Inl (MissingMetadata ''GAINA'')
      | Some g \<Rightarrow>
          (case noise md ''RDNOISEA'' of
             Inl e \<Rightarrow> Inl e
           | Inr r \<Rightarrow> Inr (amp\<lparr>saturation := as_float sat, gain := as_float g,
                              readNoise := as_float r\<rparr>)))"
  using assms
  by (simp add: tempAmp_def result_simps noise_def Let_def split: option.splits)

lemma snd_tempAmp_B:
  assumes "name amp = ''B''"
  shows "snd (tempAmp md sat amp) =
     (case md ''GAINB'' of
        None \<Rightarrow> Inl (MissingMetadata ''GAINB'')
      | Some g \<Rightarrow>
          (case noise md ''RDNOISEB'' of
             Inl e \<Rightarrow> Inl e
           | Inr r \<Rightarrow> Inr (amp\<lparr>saturation := as_float sat, gain := as_float g,
                              readNoise := as_float r\<rparr>)))"
  using assms
  by (simp add: tempAmp_def result_simps noise_def Let_def split: option.splits)

lemma snd_tempAmp_other:
  assumes "name amp \<noteq> ''A''" "name amp \<noteq> ''B''"
  shows "snd (tempAmp md sat amp) = Inl (UnexpectedAmplifier (name amp))"
  using assms by (simp add: tempAmp_def result_simps Let_def)

lemma snd_tempCcd_Cons:
  "snd (tempCcd md sat (amp # amps) built) =
     (case snd (tempAmp md sat amp) of
        Inl e \<Rightarrow> Inl e
      | Inr t \<Rightarrow> snd (tempCcd md sat amps (built @ [t])))"
  by (simp add: snd_and_then)

lemma snd_tempCcd_append:
  "snd (tempCcd md sat (pre @ rest) built) =
     (case snd (tempCcd md sat pre built) of
        Inl e \<Rightarrow> Inl e
      | Inr b \<Rightarrow> snd (tempCcd md sat rest b))"
proof (induction pre arbitrary: built)
  case Nil
  show ?case by (simp add: snd_ok)
next
  case (Cons a pre)
  show ?case
    by (simp add: snd_and_then Cons.IH split: sum.splits)
qed

lemma tempCcd_built:
  "snd (tempCcd md sat amps built) = Inr out \<Longrightarrow>
     \<exists>ts. out = built @ ts \<and> list_all2 (\<lambda>a t. snd (tempAmp md sat a) = Inr t) amps ts"
proof (induction amps arbitrary: built)
  case Nil
  then show ?case by (simp add: snd_ok)
next
  case (Cons a amps)
  from Cons.prems obtain t where t: "snd (tempAmp md sat a) = Inr t"
    and rest: "snd (tempCcd md sat amps (built @ [t])) = Inr out"
    by (auto simp: snd_and_then split: sum.splits)
  from Cons.IH [OF rest] obtain ts where
    "out = (built @ [t]) @ ts" "list_all2 (\<lambda>a t. snd (tempAmp md sat a) = Inr t) amps ts"
    by blast
  with t have "out = built @ (t # ts) \<and>
      list_all2 (\<lambda>a t. snd (tempAmp md sat a) = Inr t) (a # amps) (t # ts)"
    by simp
  then show ?case by blast
qed

section \<open>The histogram of numpy computes the histogram of the specification\<close>


lemma linspace_nth:
  assumes "0 < n" "k \<le> n"
  shows "linspace lo hi (Suc n) ! k = spec_bin_edge lo hi n k"
proof (cases "k < n")
  case True
  then show ?thesis
    by (simp add: linspace_def spec_bin_edge_def nth_append)
next
  case False
  with assms have "k = n" by simp
  with assms show ?thesis
    by (simp add: linspace_def spec_bin_edge_def nth_append)
qed

lemma spec_bin_edge_mono:
  assumes "lo < hi" "0 < n" "j \<le> k"
  shows "spec_bin_edge lo hi n j \<le> spec_bin_edge lo hi n k"
proof -
  have "0 \<le> (hi - lo) / real n" using assms by simp
  moreover have "real j \<le> real k" using assms by simp
  ultimately have "real j * ((hi - lo) / real n) \<le> real k * ((hi - lo) / real n)"
    by (rule mult_right_mono [rotated])
  then show ?thesis by (simp add: spec_bin_edge_def)
qed

lemma spec_bin_edge_last: "0 < n \<Longrightarrow> spec_bin_edge lo hi n n = hi"
  by (simp add: spec_bin_edge_def)

lemma spec_bin_edge_first: "spec_bin_edge lo hi n 0 = lo"
  by (simp add: spec_bin_edge_def)

text \<open>The scaled offset of a value lies between the bin's number and the next.\<close>

lemma edge_le_iff:
  assumes "lo < hi" "0 < n"
  shows "spec_bin_edge lo hi n k \<le> a \<longleftrightarrow> real k \<le> (a - lo) / (hi - lo) * real n"
proof -
  have "spec_bin_edge lo hi n k \<le> a \<longleftrightarrow> real k * (hi - lo) / real n \<le> a - lo"
    by (simp add: spec_bin_edge_def algebra_simps)
  also have "\<dots> \<longleftrightarrow> real k * (hi - lo) \<le> (a - lo) * real n"
    using assms by (simp add: pos_divide_le_eq)
  also have "\<dots> \<longleftrightarrow> real k \<le> (a - lo) * real n / (hi - lo)"
    using assms by (simp add: pos_le_divide_eq)
  finally show ?thesis by simp
qed

lemma less_edge_iff:
  assumes "lo < hi" "0 < n"
  shows "a < spec_bin_edge lo hi n k \<longleftrightarrow> (a - lo) / (hi - lo) * real n < real k"
  using edge_le_iff [OF assms, of k a] by (simp add: not_le [symmetric])

lemma bin_index_eq:
  assumes "lo < hi" "0 < n" "lo \<le> a" "a \<le> hi"
  shows "bin_index (linspace lo hi (Suc n)) lo hi n a =
           (if nat \<lfloor>(a - lo) / (hi - lo) * real n\<rfloor> = n then n - 1
            else nat \<lfloor>(a - lo) / (hi - lo) * real n\<rfloor>)"
proof -
  define f where "f = (a - lo) / (hi - lo) * real n"
  define i0 where "i0 = nat \<lfloor>f\<rfloor>"
  have f0: "0 \<le> f" using assms by (simp add: f_def)
  have "(a - lo) / (hi - lo) \<le> 1" using assms by simp
  then have "(a - lo) / (hi - lo) * real n \<le> 1 * real n"
    by (rule mult_right_mono) simp
  then have fn: "f \<le> real n" by (simp add: f_def)
  have lower: "real i0 \<le> f" using f0 by (simp add: i0_def)
  have upper: "f < real i0 + 1" using f0 by (simp add: i0_def)
  have i0n: "i0 \<le> n" using lower fn by linarith
  have py: "py_int f = \<lfloor>f\<rfloor>" using f0 by (simp add: py_int_def)
  have E: "\<And>k. k \<le> n \<Longrightarrow> linspace lo hi (Suc n) ! k = spec_bin_edge lo hi n k"
    using assms(2) by (simp add: linspace_nth)
  have le: "\<And>k. spec_bin_edge lo hi n k \<le> a \<longleftrightarrow> real k \<le> f"
    unfolding f_def by (rule edge_le_iff [OF assms(1,2)])
  have "bin_index (linspace lo hi (Suc n)) lo hi n a = (if i0 = n then n - 1 else i0)"
  proof (cases "i0 = n")
    case True
    have "real (n - 1) \<le> f" using lower True assms(2) by simp
    then have a1: "\<not> a < spec_bin_edge lo hi n (n - 1)" by (simp add: le [symmetric])
    have "bin_index (linspace lo hi (Suc n)) lo hi n a = n - 1"
      unfolding bin_index_def Let_def f_def [symmetric] py i0_def [symmetric]
      using True a1 by (simp add: E)
    then show ?thesis using True by simp
  next
    case False
    with i0n have lt: "i0 < n" by simp
    have a1: "\<not> a < spec_bin_edge lo hi n i0" using lower by (simp add: le [symmetric])
    have "\<not> real (i0 + 1) \<le> f" using upper by simp
    then have a2: "\<not> spec_bin_edge lo hi n (i0 + 1) \<le> a" using le [of "i0 + 1"] by blast
    have "bin_index (linspace lo hi (Suc n)) lo hi n a = i0"
      unfolding bin_index_def Let_def f_def [symmetric] py i0_def [symmetric]
      using False a1 a2 lt by (simp add: E)
    then show ?thesis using False by simp
  qed
  then show ?thesis unfolding i0_def f_def .
qed

lemma bin_index_in_bin:
  assumes "lo < hi" "0 < n" "lo \<le> a" "a \<le> hi"
  shows "bin_index (linspace lo hi (Suc n)) lo hi n a < n \<and>
         spec_in_bin lo hi n (bin_index (linspace lo hi (Suc n)) lo hi n a) a"
proof -
  define f where "f = (a - lo) / (hi - lo) * real n"
  define i0 where "i0 = nat \<lfloor>f\<rfloor>"
  have f0: "0 \<le> f" using assms by (simp add: f_def)
  have "(a - lo) / (hi - lo) \<le> 1" using assms by simp
  then have "(a - lo) / (hi - lo) * real n \<le> 1 * real n"
    by (rule mult_right_mono) simp
  then have fn: "f \<le> real n" by (simp add: f_def)
  have lower: "real i0 \<le> f" using f0 by (simp add: i0_def)
  have upper: "f < real i0 + 1" using f0 by (simp add: i0_def)
  have i0n: "i0 \<le> n" using lower fn by linarith
  have le: "\<And>k. spec_bin_edge lo hi n k \<le> a \<longleftrightarrow> real k \<le> f"
    unfolding f_def by (rule edge_le_iff [OF assms(1,2)])
  have lt: "\<And>k. a < spec_bin_edge lo hi n k \<longleftrightarrow> f < real k"
    unfolding f_def by (rule less_edge_iff [OF assms(1,2)])
  have eq: "bin_index (linspace lo hi (Suc n)) lo hi n a = (if i0 = n then n - 1 else i0)"
    unfolding i0_def f_def by (rule bin_index_eq [OF assms])
  show ?thesis
  proof (cases "i0 = n")
    case True
    have "real (n - 1) \<le> f" using lower True assms(2) by simp
    then show ?thesis
      using True assms by (simp add: eq spec_in_bin_def le)
  next
    case False
    with i0n have "i0 < n" by simp
    moreover have "f < real (i0 + 1)" using upper by simp
    ultimately show ?thesis
      using False lower assms(4) by (simp add: eq spec_in_bin_def le lt)
  qed
qed

lemma spec_in_bin_range:
  assumes "lo < hi" "0 < n" "k < n" "spec_in_bin lo hi n k x"
  shows "lo \<le> x \<and> x \<le> hi"
proof -
  have "spec_bin_edge lo hi n 0 \<le> spec_bin_edge lo hi n k"
    using assms by (intro spec_bin_edge_mono) simp_all
  then have "lo \<le> x" using assms(4) by (simp add: spec_in_bin_def spec_bin_edge_first)
  moreover have "x \<le> hi"
  proof (cases "k + 1 = n")
    case True
    then show ?thesis using assms(4) by (simp add: spec_in_bin_def)
  next
    case False
    have "spec_bin_edge lo hi n (k + 1) \<le> spec_bin_edge lo hi n n"
      using assms by (intro spec_bin_edge_mono) simp_all
    then show ?thesis
      using assms False by (simp add: spec_in_bin_def spec_bin_edge_last)
  qed
  ultimately show ?thesis by simp
qed

lemma spec_in_bin_unique:
  assumes "lo < hi" "0 < n" "j < n" "k < n"
    and "spec_in_bin lo hi n j x" "spec_in_bin lo hi n k x"
  shows "j = k"
proof -
  have no: "\<not> (j' < k' \<and> k' < n \<and> spec_in_bin lo hi n j' x \<and> spec_in_bin lo hi n k' x)"
    for j' k'
  proof
    assume h: "j' < k' \<and> k' < n \<and> spec_in_bin lo hi n j' x \<and> spec_in_bin lo hi n k' x"
    then have "j' + 1 \<noteq> n" by simp
    with h have "x < spec_bin_edge lo hi n (j' + 1)" by (simp add: spec_in_bin_def)
    moreover have "spec_bin_edge lo hi n (j' + 1) \<le> spec_bin_edge lo hi n k'"
      using assms(1,2) h by (intro spec_bin_edge_mono) simp_all
    moreover have "spec_bin_edge lo hi n k' \<le> x" using h by (simp add: spec_in_bin_def)
    ultimately show False by simp
  qed
  from no [of j k] no [of k j] assms show ?thesis by (meson nat_neq_iff)
qed

lemma bin_index_iff:
  assumes "lo < hi" "0 < n" "k < n"
  shows "(lo \<le> x \<and> x \<le> hi) \<and> bin_index (linspace lo hi (Suc n)) lo hi n x = k
           \<longleftrightarrow> spec_in_bin lo hi n k x"
proof
  assume "(lo \<le> x \<and> x \<le> hi) \<and> bin_index (linspace lo hi (Suc n)) lo hi n x = k"
  then show "spec_in_bin lo hi n k x"
    using bin_index_in_bin [OF assms(1,2), of x] by auto
next
  assume h: "spec_in_bin lo hi n k x"
  then have r: "lo \<le> x \<and> x \<le> hi" using assms by (intro spec_in_bin_range)
  then have "bin_index (linspace lo hi (Suc n)) lo hi n x < n"
    and "spec_in_bin lo hi n (bin_index (linspace lo hi (Suc n)) lo hi n x) x"
    using bin_index_in_bin [OF assms(1,2), of x] by simp_all
  then have "bin_index (linspace lo hi (Suc n)) lo hi n x = k"
    using assms h by (intro spec_in_bin_unique [of lo hi n _ k x])
  with r show "(lo \<le> x \<and> x \<le> hi) \<and> bin_index (linspace lo hi (Suc n)) lo hi n x = k"
    by simp
qed

lemma fold_max_le:
  "\<forall>x \<in> set xs. x \<le> b \<Longrightarrow> c \<le> b \<Longrightarrow> fold max xs c \<le> (b::nat)"
  by (induction xs arbitrary: c) simp_all

lemma bincount_exact:
  assumes "\<forall>i \<in> set x. i < n"
  shows "bincount x n = map (count_list x) [0..<n]"
proof -
  have "fold max (map Suc x) 0 \<le> n"
    using assms by (intro fold_max_le) auto
  then show ?thesis by (simp add: bincount_def max_absorb1)
qed

lemma count_list_map:
  "count_list (map f xs) k = length (filter (\<lambda>x. f x = k) xs)"
  by (induction xs) simp_all

lemma np_histogram_spec:
  assumes "lo < hi" "0 < n"
  shows "np_histogram a n (lo, hi) =
           ([NpHistogram], Inr (spec_hist lo hi n a, linspace lo hi (Suc n)))"
proof -
  let ?bi = "bin_index (linspace lo hi (Suc n)) lo hi n"
  let ?keep = "filter (\<lambda>x. lo \<le> x \<and> x \<le> hi) a"
  have "\<forall>i \<in> set (map ?bi ?keep). i < n"
    using bin_index_in_bin [OF assms] by auto
  then have "bincount (map ?bi ?keep) n = map (count_list (map ?bi ?keep)) [0..<n]"
    by (rule bincount_exact)
  also have "\<dots> = spec_hist lo hi n a"
    unfolding spec_hist_def
  proof (rule map_cong [OF refl])
    fix k assume "k \<in> set [0..<n]"
    then have k: "k < n" by simp
    have "count_list (map ?bi ?keep) k
            = length (filter (\<lambda>x. (lo \<le> x \<and> x \<le> hi) \<and> ?bi x = k) a)"
      by (simp add: count_list_map)
    also have "\<dots> = length (filter (spec_in_bin lo hi n k) a)"
      using bin_index_iff [OF assms k] by simp
    finally show "count_list (map ?bi ?keep) k = length (filter (spec_in_bin lo hi n k) a)" .
  qed
  finally have "bincount (map ?bi ?keep) n = spec_hist lo hi n a" .
  with assms(1) show ?thesis
    by (simp add: np_histogram_def Let_def)
qed

lemma fold_max_Max:
  assumes "hist \<noteq> []"
  shows "fold max hist (0::nat) = Max (set hist)"
proof -
  have "fold max hist 0 = Max (set (0 # hist))"
    by (simp only: Max.set_eq_fold)
  also have "\<dots> = max 0 (Max (set hist))"
    using assms by simp
  finally show ?thesis by simp
qed

lemma np_argmax_peak:
  assumes "hist \<noteq> []"
  shows "spec_peak hist (np_argmax hist)"
proof -
  let ?M = "fold max hist 0"
  let ?k = "np_argmax hist"
  have M: "?M = Max (set hist)" using assms by (rule fold_max_Max)
  then have "?M \<in> set hist" using assms by simp
  then have "takeWhile (\<lambda>c. c \<noteq> ?M) hist \<noteq> hist" by auto
  then have "length (takeWhile (\<lambda>c. c \<noteq> ?M) hist) \<noteq> length hist"
    using takeWhile_eq_take [of "\<lambda>c. c \<noteq> ?M" hist] by auto
  then have lt: "?k < length hist"
    unfolding np_argmax_def
    using length_takeWhile_le [of "\<lambda>c. c \<noteq> ?M" hist] by simp
  then have at: "hist ! ?k = ?M"
    unfolding np_argmax_def using nth_length_takeWhile [of "\<lambda>c. c \<noteq> ?M" hist] by simp
  have le: "hist ! j \<le> hist ! ?k" if "j < length hist" for j
    using that by (simp add: at M)
  have less: "hist ! j < hist ! ?k" if "j < ?k" for j
  proof -
    from that have j: "j < length (takeWhile (\<lambda>c. c \<noteq> ?M) hist)"
      by (simp add: np_argmax_def)
    then have "takeWhile (\<lambda>c. c \<noteq> ?M) hist ! j \<in> set (takeWhile (\<lambda>c. c \<noteq> ?M) hist)"
      by (rule nth_mem)
    then have "takeWhile (\<lambda>c. c \<noteq> ?M) hist ! j \<noteq> ?M"
      by (auto dest: set_takeWhileD)
    then have "hist ! j \<noteq> ?M" using j by (simp add: takeWhile_nth)
    moreover have "hist ! j \<le> hist ! ?k" using that lt by (intro le) simp
    ultimately show ?thesis by (simp add: at)
  qed
  show ?thesis
    unfolding spec_peak_def using lt le less by simp
qed

lemma np_max_eq:
  assumes "ravel img \<noteq> []"
  shows "np_max img = ([NpMax], Inr (Max (set (ravel img))))"
proof -
  from assms obtain x xs where c: "ravel img = x # xs" by (cases "ravel img") auto
  have "fold max xs x = Max (set (x # xs))" by (simp only: Max.set_eq_fold)
  with c show ?thesis by (simp add: np_max_def)
qed

lemma saturate_histogram:
  assumes "ravel img \<noteq> []" "60000 < Max (set (ravel img))"
  shows "saturate config md img =
     ([NpMax, NpHistogram],
      Inr (PyInt (py_int (safe config *
        spec_bin_edge 60000 (Max (set (ravel img)) + 1) 100
          (np_argmax (spec_hist 60000 (Max (set (ravel img)) + 1) 100 (ravel img)))))))"
proof -
  let ?m = "Max (set (ravel img))"
  let ?h = "spec_hist 60000 (?m + 1) 100 (ravel img)"
  have len: "length ?h = 100" by (simp add: spec_hist_def)
  then have "?h \<noteq> []" by auto
  then have "spec_peak ?h (np_argmax ?h)" by (rule np_argmax_peak)
  then have "np_argmax ?h \<le> 100" by (simp add: spec_peak_def len)
  then have edge: "linspace 60000 (?m + 1) 101 ! np_argmax ?h
      = spec_bin_edge 60000 (?m + 1) 100 (np_argmax ?h)"
    using linspace_nth [of 100 "np_argmax ?h" 60000 "?m + 1"] by simp
  have h: "np_histogram (ravel img) 100 (60000, ?m + 1)
      = ([NpHistogram], Inr (?h, linspace 60000 (?m + 1) 101))"
    using np_histogram_spec [of 60000 "?m + 1" 100 "ravel img"] assms(2) by simp
  show ?thesis
    using assms(2)
    by (simp add: saturate_def np_max_eq [OF assms(1)] and_then_def h edge ok_def)
qed

lemma saturate_metadata:
  assumes "ravel img \<noteq> []" "Max (set (ravel img)) \<le> 60000"
  shows "saturate config md img =
     ([NpMax, GetScalar ''SATURATE''],
      case md ''SATURATE'' of None \<Rightarrow> Inl (MissingMetadata ''SATURATE'') | Some v \<Rightarrow> Inr v)"
  using assms(2)
  by (simp add: saturate_def np_max_eq [OF assms(1)] and_then_def getScalar_def
      split: option.splits)

lemma saturate_empty:
  assumes "ravel img = []"
  shows "saturate config md img = ([NpMax], Inl ZeroSizeArray)"
  using assms by (simp add: saturate_def np_max_def and_then_def)

section \<open>The run as a whole\<close>

lemma run_None:
  "run config e p None =
     (case and_then (emit ConvertIntToFloat) (\<lambda>_.
           and_then (saturate config (metadata e) (image e)) (\<lambda>sat.
           and_then (emit (LogInfo (format_d sat))) (\<lambda>_.
           and_then (emit RebuildDetector) (\<lambda>_.
             tempCcd (metadata e) sat (detector e) [])))) of
        (t, Inl err) \<Rightarrow> (e, (t, Inl err))
      | (t, Inr amps) \<Rightarrow> (e\<lparr>detector := amps\<rparr>, (t @ [SetDetector, IsrTaskRun], Inr p)))"
  by (simp add: run_def Let_def)

lemma snd_before_setDetector:
  "snd (and_then (emit ConvertIntToFloat) (\<lambda>_.
        and_then (saturate config md img) (\<lambda>sat.
        and_then (emit (LogInfo (format_d sat))) (\<lambda>_.
        and_then (emit RebuildDetector) (\<lambda>_. tempCcd md sat d [])))))
     = (case snd (saturate config md img) of
          Inl err \<Rightarrow> Inl err
        | Inr sat \<Rightarrow> snd (tempCcd md sat d []))"
  by (simp add: snd_and_then snd_emit split: sum.splits)

lemma snd_snd_run:
  "snd (snd (run config e p None)) =
     (case snd (saturate config (metadata e) (image e)) of
        Inl err \<Rightarrow> Inl err
      | Inr sat \<Rightarrow>
          (case snd (tempCcd (metadata e) sat (detector e) []) of
             Inl err \<Rightarrow> Inl err
           | Inr amps \<Rightarrow> Inr p))"
proof -
  obtain t r where b: "and_then (emit ConvertIntToFloat) (\<lambda>_.
        and_then (saturate config (metadata e) (image e)) (\<lambda>sat.
        and_then (emit (LogInfo (format_d sat))) (\<lambda>_.
        and_then (emit RebuildDetector) (\<lambda>_.
          tempCcd (metadata e) sat (detector e) [])))) = (t, r)"
    by (cases "and_then (emit ConvertIntToFloat) (\<lambda>_.
        and_then (saturate config (metadata e) (image e)) (\<lambda>sat.
        and_then (emit (LogInfo (format_d sat))) (\<lambda>_.
        and_then (emit RebuildDetector) (\<lambda>_.
          tempCcd (metadata e) sat (detector e) []))))")
  from snd_before_setDetector [of config "metadata e" "image e" "detector e"] b
  have r: "r = (case snd (saturate config (metadata e) (image e)) of
                  Inl err \<Rightarrow> Inl err
                | Inr sat \<Rightarrow> snd (tempCcd (metadata e) sat (detector e) []))"
    by simp
  show ?thesis
    using r by (cases r) (auto simp add: run_None b split: sum.splits)
qed

lemma fst_run:
  "fst (run config e p None) =
     (case snd (saturate config (metadata e) (image e)) of
        Inl err \<Rightarrow> e
      | Inr sat \<Rightarrow>
          (case snd (tempCcd (metadata e) sat (detector e) []) of
             Inl err \<Rightarrow> e
           | Inr amps \<Rightarrow> e\<lparr>detector := amps\<rparr>))"
proof -
  obtain t r where b: "and_then (emit ConvertIntToFloat) (\<lambda>_.
        and_then (saturate config (metadata e) (image e)) (\<lambda>sat.
        and_then (emit (LogInfo (format_d sat))) (\<lambda>_.
        and_then (emit RebuildDetector) (\<lambda>_.
          tempCcd (metadata e) sat (detector e) [])))) = (t, r)"
    by (cases "and_then (emit ConvertIntToFloat) (\<lambda>_.
        and_then (saturate config (metadata e) (image e)) (\<lambda>sat.
        and_then (emit (LogInfo (format_d sat))) (\<lambda>_.
        and_then (emit RebuildDetector) (\<lambda>_.
          tempCcd (metadata e) sat (detector e) []))))")
  from snd_before_setDetector [of config "metadata e" "image e" "detector e"] b
  have r: "r = (case snd (saturate config (metadata e) (image e)) of
                  Inl err \<Rightarrow> Inl err
                | Inr sat \<Rightarrow> snd (tempCcd (metadata e) sat (detector e) []))"
    by simp
  show ?thesis
    using r by (cases r) (auto simp add: run_None b split: sum.splits)
qed

lemma run_Some: "run config e p (Some k) = (e, ([], Inl UnsupportedCorrection))"
  by (simp add: run_def raise_def)

lemma run_failure_keeps_exposure:
  assumes "snd (snd (run config e p bf)) = Inl err"
  shows "fst (run config e p bf) = e"
proof (cases bf)
  case None
  with assms show ?thesis
    by (simp add: snd_snd_run fst_run split: sum.splits)
next
  case (Some k)
  then show ?thesis by (simp add: run_Some)
qed

lemma run_success:
  assumes "snd (snd (run config e p bf)) = Inr p'"
  shows "\<exists>sat amps. bf = None \<and> p' = p \<and>
           snd (saturate config (metadata e) (image e)) = Inr sat \<and>
           snd (tempCcd (metadata e) sat (detector e) []) = Inr amps \<and>
           fst (run config e p bf) = e\<lparr>detector := amps\<rparr>"
proof (cases bf)
  case None
  with assms show ?thesis
    by (auto simp: snd_snd_run fst_run split: sum.splits)
next
  case (Some k)
  with assms show ?thesis by (simp add: run_Some)
qed

lemma tempAmp_result:
  assumes "snd (tempAmp md sat amp) = Inr t"
  shows "\<exists>g r. t = amp\<lparr>saturation := as_float sat, gain := g, readNoise := r\<rparr>"
proof -
  consider "name amp = ''A''" | "name amp = ''B''" | "name amp \<noteq> ''A''" "name amp \<noteq> ''B''"
    by blast
  then show ?thesis
  proof cases
    case 1
    with assms show ?thesis
      by (auto simp: snd_tempAmp_A split: option.splits sum.splits)
  next
    case 2
    with assms show ?thesis
      by (auto simp: snd_tempAmp_B split: option.splits sum.splits)
  next
    case 3
    with assms show ?thesis by (simp add: snd_tempAmp_other)
  qed
qed

lemma tempCcd_nth:
  assumes "snd (tempCcd md sat amps []) = Inr out"
  shows "length out = length amps \<and>
         (\<forall>i < length amps. snd (tempAmp md sat (amps ! i)) = Inr (out ! i))"
proof -
  from tempCcd_built [OF assms] have
    "list_all2 (\<lambda>a t. snd (tempAmp md sat a) = Inr t) amps out"
    by auto
  then show ?thesis
    by (simp add: list_all2_conv_all_nth)
qed

lemma tempCcd_fails:
  assumes "\<And>s. \<exists>err. snd (tempAmp md s amp) = Inl err"
  shows "\<exists>err. snd (tempCcd md sat (pre @ amp # post) built) = Inl err"
proof (cases "snd (tempCcd md sat pre built)")
  case (Inl err)
  then show ?thesis by (simp add: snd_tempCcd_append)
next
  case (Inr b)
  from assms [of sat] obtain err where "snd (tempAmp md sat amp) = Inl err" by blast
  with Inr show ?thesis by (simp add: snd_tempCcd_append snd_and_then)
qed

lemma tempCcd_reaches:
  assumes "snd (tempCcd md sat pre built) = Inr b" "snd (tempAmp md sat amp) = Inl err"
  shows "snd (tempCcd md sat (pre @ amp # post) built) = Inl err"
  using assms by (simp add: snd_tempCcd_append snd_and_then)

lemma run_fails:
  assumes "detector e = pre @ amp # post"
    and "\<And>s. \<exists>err. snd (tempAmp (metadata e) s amp) = Inl err"
  shows "\<exists>err. snd (snd (run config e p bf)) = Inl err"
proof (cases bf)
  case None
  show ?thesis
  proof (cases "snd (saturate config (metadata e) (image e))")
    case (Inl err)
    with None show ?thesis by (simp add: snd_snd_run)
  next
    case (Inr sat)
    from tempCcd_fails [of "metadata e" amp sat pre post "[]", OF assms(2)]
    obtain err where "snd (tempCcd (metadata e) sat (detector e) []) = Inl err"
      using assms(1) by auto
    with None Inr show ?thesis by (simp add: snd_snd_run)
  qed
next
  case (Some k)
  then show ?thesis by (simp add: run_Some)
qed

lemma run_reaches:
  assumes "detector e = pre @ amp # post"
    and "snd (saturate config (metadata e) (image e)) = Inr sat"
    and "snd (tempCcd (metadata e) sat pre []) = Inr built"
    and "snd (tempAmp (metadata e) sat amp) = Inl err"
  shows "snd (snd (run config e p None)) = Inl err"
  using assms tempCcd_reaches [of "metadata e" sat pre "[]" built amp err post]
  by (simp add: snd_snd_run)

section \<open>What the loop leaves in each record\<close>

lemma tempCcd_set:
  assumes "snd (tempCcd md sat amps []) = Inr out" "t \<in> set out"
  shows "\<exists>a \<in> set amps. snd (tempAmp md sat a) = Inr t"
proof -
  from assms(2) obtain i where i: "i < length out" "out ! i = t"
    by (auto simp: in_set_conv_nth)
  with tempCcd_nth [OF assms(1)] have "snd (tempAmp md sat (amps ! i)) = Inr t" "i < length amps"
    by auto
  then show ?thesis by (auto intro: bexI [of _ "amps ! i"])
qed

lemma tempAmp_shape:
  assumes "snd (tempAmp md sat amp) = Inr t"
  shows "name t = name amp \<and> amplifier.more t = amplifier.more amp \<and>
         saturation t = as_float sat"
proof -
  from tempAmp_result [OF assms] obtain g r where
    "t = amp\<lparr>saturation := as_float sat, gain := g, readNoise := r\<rparr>" by blast
  then show ?thesis by simp
qed

lemma tempCcd_same_shape:
  assumes "snd (tempCcd md sat d []) = Inr out"
  shows "list_all2 (\<lambda>a b. name a = name b \<and> amplifier.more a = amplifier.more b) out d"
proof -
  from tempCcd_nth [OF assms] have len: "length out = length d"
    and nth: "\<And>i. i < length d \<Longrightarrow> snd (tempAmp md sat (d ! i)) = Inr (out ! i)"
    by simp_all
  have "name (out ! i) = name (d ! i) \<and> amplifier.more (out ! i) = amplifier.more (d ! i)"
    if "i < length d" for i
    using tempAmp_shape [OF nth [OF that]] by simp
  with len show ?thesis by (simp add: list_all2_conv_all_nth)
qed

lemma noise_Inr:
  assumes "noise md k = Inr v"
  shows "\<exists>r. md k = Some r \<and>
           (if as_float r > 60000 then md ''RDNOISE'' = Some v else v = r)"
  using assms by (auto simp: noise_def split: option.splits if_splits)

lemma tempAmp_A_Inr:
  assumes "name amp = ''A''" and "snd (tempAmp md sat amp) = Inr t"
  shows "\<exists>g r. md ''GAINA'' = Some g \<and> md ''RDNOISEA'' = Some r \<and>
           gain t = as_float g \<and>
           (if as_float r > 60000
            then \<exists>f. md ''RDNOISE'' = Some f \<and> readNoise t = as_float f
            else readNoise t = as_float r)"
proof -
  from assms(2) obtain g where g: "md ''GAINA'' = Some g"
    unfolding snd_tempAmp_A [OF assms(1)] by (cases "md ''GAINA''") simp_all
  from assms(2) obtain v where v: "noise md ''RDNOISEA'' = Inr v"
    unfolding snd_tempAmp_A [OF assms(1)] g by (cases "noise md ''RDNOISEA''") simp_all
  from assms(2) have t: "t = amp\<lparr>saturation := as_float sat, gain := as_float g,
                              readNoise := as_float v\<rparr>"
    unfolding snd_tempAmp_A [OF assms(1)] g v by simp
  from noise_Inr [OF v] obtain r where r: "md ''RDNOISEA'' = Some r"
    and c: "if as_float r > 60000 then md ''RDNOISE'' = Some v else v = r" by blast
  have "gain t = as_float g" "readNoise t = as_float v" by (simp_all add: t)
  with g r c show ?thesis by (cases "as_float r > 60000") simp_all
qed

lemma tempAmp_B_Inr:
  assumes "name amp = ''B''" and "snd (tempAmp md sat amp) = Inr t"
  shows "\<exists>g r. md ''GAINB'' = Some g \<and> md ''RDNOISEB'' = Some r \<and>
           gain t = as_float g \<and>
           (if as_float r > 60000
            then \<exists>f. md ''RDNOISE'' = Some f \<and> readNoise t = as_float f
            else readNoise t = as_float r)"
proof -
  from assms(2) obtain g where g: "md ''GAINB'' = Some g"
    unfolding snd_tempAmp_B [OF assms(1)] by (cases "md ''GAINB''") simp_all
  from assms(2) obtain v where v: "noise md ''RDNOISEB'' = Inr v"
    unfolding snd_tempAmp_B [OF assms(1)] g by (cases "noise md ''RDNOISEB''") simp_all
  from assms(2) have t: "t = amp\<lparr>saturation := as_float sat, gain := as_float g,
                              readNoise := as_float v\<rparr>"
    unfolding snd_tempAmp_B [OF assms(1)] g v by simp
  from noise_Inr [OF v] obtain r where r: "md ''RDNOISEB'' = Some r"
    and c: "if as_float r > 60000 then md ''RDNOISE'' = Some v else v = r" by blast
  have "gain t = as_float g" "readNoise t = as_float v" by (simp_all add: t)
  with g r c show ?thesis by (cases "as_float r > 60000") simp_all
qed

lemma tempAmp_cong:
  assumes "name a = name b" and "amplifier.more a = amplifier.more b"
  shows "tempAmp md sat a = tempAmp md sat b"
  using assms by (cases a, cases b) (simp add: tempAmp_def Let_def)

lemma tempCcd_cong:
  assumes "list_all2 (\<lambda>a b. tempAmp md sat a = tempAmp md sat b) d1 d2"
  shows "tempCcd md sat d1 built = tempCcd md sat d2 built"
  using assms
proof (induction d1 d2 arbitrary: built rule: list_all2_induct)
  case Nil
  show ?case by simp
next
  case (Cons a d1 b d2)
  then show ?case by simp
qed

section \<open>The peak bin and the sign of the estimate\<close>


lemma spec_bin_edge_ge:
  assumes "lo < hi" "0 < n"
  shows "lo \<le> spec_bin_edge lo hi n k"
  using spec_bin_edge_mono [OF assms, of 0 k] by (simp add: spec_bin_edge_first)

lemma py_int_sign:
  "(0 \<le> x \<longrightarrow> 0 \<le> py_int x) \<and> (x \<le> 0 \<longrightarrow> py_int x \<le> 0) \<and> (x \<le> -1 \<longrightarrow> py_int x < 0)"
  by (auto simp: py_int_def)

lemma saturate_histogram_value:
  assumes "ravel img \<noteq> []" and "60000 < Max (set (ravel img))"
  shows "\<exists>L. 60000 \<le> L \<and>
           (\<forall>config. saturate config md img =
              ([NpMax, NpHistogram], Inr (PyInt (py_int (safe config * L)))))"
proof -
  let ?m = "Max (set (ravel img))"
  let ?L = "spec_bin_edge 60000 (?m + 1) 100
              (np_argmax (spec_hist 60000 (?m + 1) 100 (ravel img)))"
  have "60000 \<le> ?L"
    using assms(2) by (intro spec_bin_edge_ge) simp_all
  moreover have "\<forall>config. saturate config md img =
      ([NpMax, NpHistogram], Inr (PyInt (py_int (safe config * ?L))))"
    using saturate_histogram [OF assms] by blast
  ultimately show ?thesis by blast
qed

section \<open>What does not depend on the saturation or on the configuration\<close>





lemma run_None_first_event:
  "\<exists>t. fst (snd (run config e p None)) = ConvertIntToFloat # t"
proof -
  obtain t r where b: "and_then (emit ConvertIntToFloat) (\<lambda>_.
        and_then (saturate config (metadata e) (image e)) (\<lambda>sat.
        and_then (emit (LogInfo (format_d sat))) (\<lambda>_.
        and_then (emit RebuildDetector) (\<lambda>_.
          tempCcd (metadata e) sat (detector e) [])))) = (t, r)"
    by (cases "and_then (emit ConvertIntToFloat) (\<lambda>_.
        and_then (saturate config (metadata e) (image e)) (\<lambda>sat.
        and_then (emit (LogInfo (format_d sat))) (\<lambda>_.
        and_then (emit RebuildDetector) (\<lambda>_.
          tempCcd (metadata e) sat (detector e) []))))")
  have "fst (and_then (emit ConvertIntToFloat) (\<lambda>_.
        and_then (saturate config (metadata e) (image e)) (\<lambda>sat.
        and_then (emit (LogInfo (format_d sat))) (\<lambda>_.
        and_then (emit RebuildDetector) (\<lambda>_.
          tempCcd (metadata e) sat (detector e) [])))))
      = ConvertIntToFloat # fst (
        and_then (saturate config (metadata e) (image e)) (\<lambda>sat.
        and_then (emit (LogInfo (format_d sat))) (\<lambda>_.
        and_then (emit RebuildDetector) (\<lambda>_.
          tempCcd (metadata e) sat (detector e) []))))"
    by (simp add: fst_and_then [of "emit ConvertIntToFloat"] snd_emit fst_emit)
  with b obtain t' where t: "t = ConvertIntToFloat # t'" by simp
  show ?thesis
    by (cases r) (simp_all add: run_None b t)
qed

section \<open>Rejection of the brighter-fatter kernel\<close>

text \<open>
  Claim C5. Whatever the configuration, the exposure and the pass-through inputs are, a
  run with a brighter-fatter kernel ends with \<open>UnsupportedCorrection\<close>, has performed no
  event at all (no metadata read, no histogram, no amplifier rebuilt) and leaves the
  exposure as it was. A run without a kernel, by contrast, always starts its work: its
  first event is the conversion to float.
\<close>

theorem run_bfKernel_rejected:
  "run config ccdExposure passthrough (Some k) = (ccdExposure, ([], Inl UnsupportedCorrection)) \<and>
   (\<exists>t. fst (snd (run config ccdExposure passthrough None)) = ConvertIntToFloat # t)"
proof
  show "run config ccdExposure passthrough (Some k) = (ccdExposure, ([], Inl UnsupportedCorrection))"
    by (simp add: run_def raise_def)
  show "\<exists>t. fst (snd (run config ccdExposure passthrough None)) = ConvertIntToFloat # t"
    by (rule run_None_first_event)
qed

section \<open>Saturation taken from the metadata\<close>

text \<open>
  Claim C2. When the largest pixel value is at most 60000 (and the image has pixels at
  all, and no brighter-fatter kernel stops the run), the estimate is the metadata scalar
  \<open>SATURATE\<close> as it stands: the configuration does not enter it, and every amplifier of a
  successful run carries that value. When \<open>SATURATE\<close> is absent the run ends with
  \<open>MissingMetadata\<close> for that key, having read nothing else, and the exposure is as it
  was.
\<close>

theorem saturation_from_metadata:
  assumes "ravel (image e) \<noteq> []" and "Max (set (ravel (image e))) \<le> 60000"
  shows "(\<forall>v. metadata e ''SATURATE'' = Some v \<longrightarrow>
            saturate config (metadata e) (image e) = ([NpMax, GetScalar ''SATURATE''], Inr v) \<and>
            (\<forall>p'. snd (snd (run config e p None)) = Inr p' \<longrightarrow>
               (\<forall>a \<in> set (detector (fst (run config e p None))). saturation a = as_float v)))
       \<and> (metadata e ''SATURATE'' = None \<longrightarrow>
            run config e p None =
              (e, ([ConvertIntToFloat, NpMax, GetScalar ''SATURATE''],
                   Inl (MissingMetadata ''SATURATE''))))"
proof (intro conjI allI impI)
  fix v assume v: "metadata e ''SATURATE'' = Some v"
  then show s: "saturate config (metadata e) (image e) = ([NpMax, GetScalar ''SATURATE''], Inr v)"
    by (simp add: saturate_metadata [OF assms])
  fix p' assume "snd (snd (run config e p None)) = Inr p'"
  from run_success [OF this] obtain sat amps where
    sat: "snd (saturate config (metadata e) (image e)) = Inr sat"
    and amps0: "snd (tempCcd (metadata e) sat (detector e) []) = Inr amps"
    and e': "fst (run config e p None) = e\<lparr>detector := amps\<rparr>"
    by blast
  from sat s have "sat = v" by simp
  with amps0 have amps: "snd (tempCcd (metadata e) v (detector e) []) = Inr amps" by simp
  show "\<forall>a \<in> set (detector (fst (run config e p None))). saturation a = as_float v"
  proof
    fix a assume "a \<in> set (detector (fst (run config e p None)))"
    then have "a \<in> set amps" by (simp add: e')
    from tempCcd_set [OF amps this] obtain a0 where
      "snd (tempAmp (metadata e) v a0) = Inr a" by blast
    from tempAmp_result [OF this] show "saturation a = as_float v" by auto
  qed
next
  assume "metadata e ''SATURATE'' = None"
  then show "run config e p None =
      (e, ([ConvertIntToFloat, NpMax, GetScalar ''SATURATE''],
           Inl (MissingMetadata ''SATURATE'')))"
    by (simp add: run_None saturate_metadata [OF assms] and_then_def emit_def)
qed

text \<open>The example exposure stays below 60000: with \<open>SATURATE = 65535\<close> the estimate is
  65535 whatever \<open>safe\<close> is, and without metadata the run fails on \<open>SATURATE\<close>.\<close>

theorem saturation_from_metadata_witness:
  "saturate \<lparr>safe = 1 / 2\<rparr> example_metadata [[1000, 2000], [3000, 4000]]
     = ([NpMax, GetScalar ''SATURATE''], Inr (PyInt 65535))
   \<and> run default_config (example_exposure\<lparr>metadata := Map.empty\<rparr>) () None
     = (example_exposure\<lparr>metadata := Map.empty\<rparr>,
        ([ConvertIntToFloat, NpMax, GetScalar ''SATURATE''], Inl (MissingMetadata ''SATURATE'')))"
proof -
  have h1: "ravel (image example_exposure) \<noteq> []"
    by (simp add: example_exposure_def ravel_def)
  have h2: "Max (set (ravel (image example_exposure))) \<le> 60000"
    by (simp add: example_exposure_def ravel_def)
  have k1: "ravel (image (example_exposure\<lparr>metadata := Map.empty\<rparr>)) \<noteq> []"
    by (simp add: example_exposure_def ravel_def)
  have k2: "Max (set (ravel (image (example_exposure\<lparr>metadata := Map.empty\<rparr>)))) \<le> 60000"
    by (simp add: example_exposure_def ravel_def)
  from saturation_from_metadata [OF h1 h2, of "\<lparr>safe = 1 / 2\<rparr>" "()"]
    saturation_from_metadata [OF k1 k2, of default_config "()"]
  show ?thesis
    by (simp add: example_exposure_def example_metadata_def)
qed

section \<open>Gain and read noise of the repaired records\<close>

text \<open>
  Claim C3. After a successful run, the record of an amplifier named A has the gain of
  \<open>GAINA\<close>, and the read noise of \<open>RDNOISEA\<close> unless that value exceeds 60000, in which
  case it has the read noise of \<open>RDNOISE\<close>; the record of an amplifier named B has the
  same with \<open>GAINB\<close> and \<open>RDNOISEB\<close>.
\<close>

theorem repaired_gain_and_noise:
  assumes "snd (snd (run config e p bf)) = Inr p'" and "i < length (detector e)"
  shows "(name (detector e ! i) = ''A'' \<longrightarrow>
            (\<exists>g r. metadata e ''GAINA'' = Some g \<and> metadata e ''RDNOISEA'' = Some r \<and>
               gain (detector (fst (run config e p bf)) ! i) = as_float g \<and>
               (if as_float r > 60000
                then \<exists>f. metadata e ''RDNOISE'' = Some f \<and>
                       readNoise (detector (fst (run config e p bf)) ! i) = as_float f
                else readNoise (detector (fst (run config e p bf)) ! i) = as_float r)))
       \<and> (name (detector e ! i) = ''B'' \<longrightarrow>
            (\<exists>g r. metadata e ''GAINB'' = Some g \<and> metadata e ''RDNOISEB'' = Some r \<and>
               gain (detector (fst (run config e p bf)) ! i) = as_float g \<and>
               (if as_float r > 60000
                then \<exists>f. metadata e ''RDNOISE'' = Some f \<and>
                       readNoise (detector (fst (run config e p bf)) ! i) = as_float f
                else readNoise (detector (fst (run config e p bf)) ! i) = as_float r)))"
proof -
  from run_success [OF assms(1)] obtain sat amps where
    amps: "snd (tempCcd (metadata e) sat (detector e) []) = Inr amps"
    and e': "fst (run config e p bf) = e\<lparr>detector := amps\<rparr>"
    by blast
  from tempCcd_nth [OF amps] assms(2)
  have t: "snd (tempAmp (metadata e) sat (detector e ! i)) = Inr (amps ! i)" by simp
  have A: "\<exists>g r. metadata e ''GAINA'' = Some g \<and> metadata e ''RDNOISEA'' = Some r \<and>
        gain (amps ! i) = as_float g \<and>
        (if as_float r > 60000
         then \<exists>f. metadata e ''RDNOISE'' = Some f \<and> readNoise (amps ! i) = as_float f
         else readNoise (amps ! i) = as_float r)"
    if "name (detector e ! i) = ''A''"
    using tempAmp_A_Inr [OF that t] .
  have B: "\<exists>g r. metadata e ''GAINB'' = Some g \<and> metadata e ''RDNOISEB'' = Some r \<and>
        gain (amps ! i) = as_float g \<and>
        (if as_float r > 60000
         then \<exists>f. metadata e ''RDNOISE'' = Some f \<and> readNoise (amps ! i) = as_float f
         else readNoise (amps ! i) = as_float r)"
    if "name (detector e ! i) = ''B''"
    using tempAmp_B_Inr [OF that t] .
  have d: "detector (fst (run config e p bf)) = amps" by (simp add: e')
  show ?thesis unfolding d using A B by blast
qed

text \<open>In the example \<open>RDNOISEA = 65535\<close> and \<open>RDNOISE = 5.2\<close>, so amplifier A ends with
  5.2; \<open>RDNOISEB = 4.8\<close>, so amplifier B ends with 4.8.\<close>

theorem repaired_gain_and_noise_witness:
  "gain (detector (fst (run default_config example_exposure () None)) ! 0) = 162 / 100 \<and>
   readNoise (detector (fst (run default_config example_exposure () None)) ! 0) = 52 / 10 \<and>
   gain (detector (fst (run default_config example_exposure () None)) ! 1) = 157 / 100 \<and>
   readNoise (detector (fst (run default_config example_exposure () None)) ! 1) = 48 / 10"
proof -
  have ok: "snd (snd (run default_config example_exposure () None)) = Inr ()"
    by code_simp
  have n: "name (detector example_exposure ! 0) = ''A''" "name (detector example_exposure ! 1) = ''B''"
    "0 < length (detector example_exposure)" "1 < length (detector example_exposure)"
    by (simp_all add: example_exposure_def example_detector_def)
  from repaired_gain_and_noise [OF ok n(3)] repaired_gain_and_noise [OF ok n(4)] n(1,2)
  show ?thesis
    by (auto simp: example_exposure_def example_metadata_def)
qed

section \<open>What a successful run leaves unchanged\<close>

text \<open>
  Claim C6. After a successful run the detector of the exposure has as many amplifiers
  as before, and the record at each position is the record that was there with nothing
  but saturation, gain and read noise overwritten: the order, the names and all other
  fields are the input's. The pixels and the metadata of the exposure are untouched.
\<close>

theorem detector_frame:
  assumes "snd (snd (run config e p bf)) = Inr p'"
  shows "length (detector (fst (run config e p bf))) = length (detector e) \<and>
         (\<forall>i < length (detector e).
            \<exists>s g r. detector (fst (run config e p bf)) ! i
                      = (detector e ! i)\<lparr>saturation := s, gain := g, readNoise := r\<rparr>) \<and>
         image (fst (run config e p bf)) = image e \<and>
         metadata (fst (run config e p bf)) = metadata e"
proof -
  from run_success [OF assms(1)] obtain sat amps where
    amps: "snd (tempCcd (metadata e) sat (detector e) []) = Inr amps"
    and e': "fst (run config e p bf) = e\<lparr>detector := amps\<rparr>"
    by blast
  from tempCcd_nth [OF amps] have len: "length amps = length (detector e)"
    and nth: "\<And>i. i < length (detector e) \<Longrightarrow>
                snd (tempAmp (metadata e) sat (detector e ! i)) = Inr (amps ! i)"
    by simp_all
  have "\<exists>s g r. amps ! i = (detector e ! i)\<lparr>saturation := s, gain := g, readNoise := r\<rparr>"
    if "i < length (detector e)" for i
    using tempAmp_result [OF nth [OF that]] by blast
  with len show ?thesis by (simp add: e')
qed

theorem detector_frame_witness:
  "length (detector (fst (run default_config example_exposure () None))) = 2 \<and>
   map name (detector (fst (run default_config example_exposure () None))) = [''A'', ''B'']"
proof -
  have ok: "snd (snd (run default_config example_exposure () None)) = Inr ()"
    by code_simp
  have d: "detector example_exposure = example_detector"
    by (simp add: example_exposure_def)
  from detector_frame [OF ok] have
    len: "length (detector (fst (run default_config example_exposure () None))) = 2"
    and nth: "\<And>i. i < 2 \<Longrightarrow> \<exists>s g r. detector (fst (run default_config example_exposure () None)) ! i
                      = (example_detector ! i)\<lparr>saturation := s, gain := g, readNoise := r\<rparr>"
    by (simp_all add: d example_detector_def)
  from nth [of 0] nth [of 1] have
    "name (detector (fst (run default_config example_exposure () None)) ! 0) = ''A''"
    "name (detector (fst (run default_config example_exposure () None)) ! 1) = ''B''"
    by (auto simp: example_detector_def)
  with len show ?thesis
    by (auto simp: list_eq_iff_nth_eq less_Suc_eq numeral_2_eq_2)
qed

section \<open>An amplifier that is neither A nor B\<close>

text \<open>
  Claim C4, as amended. When the detector holds an amplifier whose name is neither A nor
  B, the run never succeeds and the exposure, its detector included, is left as it was.
  The failure is \<open>UnexpectedAmplifier\<close> with that amplifier's name whenever the run gets
  as far as that amplifier: no kernel was given, the saturation was estimated, and every
  amplifier before it was repaired without error.
\<close>

theorem unexpected_amplifier_aborts:
  assumes "detector e = pre @ bad # post" and "name bad \<noteq> ''A''" and "name bad \<noteq> ''B''"
  shows "fst (run config e p bf) = e \<and>
         (\<exists>err. snd (snd (run config e p bf)) = Inl err) \<and>
         (bf = None \<and> snd (saturate config (metadata e) (image e)) = Inr sat \<and>
          snd (tempCcd (metadata e) sat pre []) = Inr built \<longrightarrow>
            snd (snd (run config e p bf)) = Inl (UnexpectedAmplifier (name bad)))"
proof -
  have bad: "\<And>s. snd (tempAmp (metadata e) s bad) = Inl (UnexpectedAmplifier (name bad))"
    using assms(2,3) by (rule snd_tempAmp_other)
  then have "\<And>s. \<exists>err. snd (tempAmp (metadata e) s bad) = Inl err" by blast
  from run_fails [OF assms(1) this, of config p bf] obtain err where
    err: "snd (snd (run config e p bf)) = Inl err" by blast
  from run_failure_keeps_exposure [OF err] have same: "fst (run config e p bf) = e" .
  have "snd (snd (run config e p bf)) = Inl (UnexpectedAmplifier (name bad))"
    if "bf = None" "snd (saturate config (metadata e) (image e)) = Inr sat"
       "snd (tempCcd (metadata e) sat pre []) = Inr built"
    using run_reaches [OF assms(1) that(2,3) bad] that(1) by simp
  with err same show ?thesis by blast
qed

theorem unexpected_amplifier_aborts_witness:
  "fst (run default_config (unexpected_exposure\<lparr>metadata := example_metadata\<rparr>) () None)
     = unexpected_exposure\<lparr>metadata := example_metadata\<rparr> \<and>
   snd (snd (run default_config (unexpected_exposure\<lparr>metadata := example_metadata\<rparr>) () None))
     = Inl (UnexpectedAmplifier ''C'')"
proof -
  let ?e = "unexpected_exposure\<lparr>metadata := example_metadata\<rparr>"
  have d: "detector ?e = [\<lparr>name = ''A'', saturation = 0, gain = 1, readNoise = 0\<rparr>]
             @ \<lparr>name = ''C'', saturation = 0, gain = 1, readNoise = 0\<rparr> # []"
    by (simp add: unexpected_exposure_def)
  have s: "snd (saturate default_config (metadata ?e) (image ?e)) = Inr (PyInt 65535)"
    by code_simp
  have b: "snd (tempCcd (metadata ?e) (PyInt 65535)
                  [\<lparr>name = ''A'', saturation = 0, gain = 1, readNoise = 0\<rparr>] [])
             = Inr [\<lparr>name = ''A'', saturation = 65535, gain = 162 / 100, readNoise = 52 / 10\<rparr>]"
    by code_simp
  from unexpected_amplifier_aborts [OF d, of default_config "()" None "PyInt 65535"
      "[\<lparr>name = ''A'', saturation = 65535, gain = 162 / 100, readNoise = 52 / 10\<rparr>]"] s b
  show ?thesis by simp
qed

text \<open>
  The claim as the specification states it promises \<open>UnexpectedAmplifier\<close> for every
  such detector. With amplifiers A and C and a metadata record that lacks \<open>GAINA\<close>, the
  loop fails on amplifier A first, with \<open>MissingMetadata\<close>.
\<close>

theorem unexpected_amplifier_counterexample:
  "snd (snd (run default_config unexpected_exposure () None)) = Inl (MissingMetadata ''GAINA'')"
  by code_simp

section \<open>The repair depends on nothing but its inputs\<close>

text \<open>
  Claim C8. The loop is a function of the metadata, the saturation and the detector, and
  of the detector it uses only the names and the fields it does not write: two detectors
  that differ in nothing but the saturation, gain and read noise they held before give
  the same events and the same records. Hence running the loop again on its own output,
  with the same metadata and saturation, gives that output again.
\<close>

theorem repair_deterministic:
  assumes "list_all2 (\<lambda>a b. name a = name b \<and> amplifier.more a = amplifier.more b) d1 d2"
  shows "tempCcd md sat d1 [] = tempCcd md sat d2 [] \<and>
         (\<forall>out. snd (tempCcd md sat d1 []) = Inr out \<longrightarrow>
                tempCcd md sat out [] = tempCcd md sat d1 [])"
proof
  have same: "tempCcd md sat xs [] = tempCcd md sat ys []"
    if "list_all2 (\<lambda>a b. name a = name b \<and> amplifier.more a = amplifier.more b) xs ys"
    for xs ys :: "'a amplifier_scheme list"
  proof (rule tempCcd_cong)
    show "list_all2 (\<lambda>a b. tempAmp md sat a = tempAmp md sat b) xs ys"
      using that
    proof (rule list_all2_mono)
      fix a b :: "'a amplifier_scheme"
      assume "name a = name b \<and> amplifier.more a = amplifier.more b"
      then show "tempAmp md sat a = tempAmp md sat b"
        using tempAmp_cong [of a b md sat] by blast
    qed
  qed
  show "tempCcd md sat d1 [] = tempCcd md sat d2 []"
    using assms by (rule same)
  show "\<forall>out. snd (tempCcd md sat d1 []) = Inr out \<longrightarrow>
          tempCcd md sat out [] = tempCcd md sat d1 []"
    by (intro allI impI same tempCcd_same_shape)
qed

theorem repair_deterministic_witness:
  "tempCcd example_metadata (PyInt 65535) example_detector []
     = tempCcd example_metadata (PyInt 65535)
         [\<lparr>name = ''A'', saturation = 7, gain = 8, readNoise = 9\<rparr>,
          \<lparr>name = ''B'', saturation = 10, gain = 11, readNoise = 12\<rparr>] [] \<and>
   snd (tempCcd example_metadata (PyInt 65535)
         [\<lparr>name = ''A'', saturation = 65535, gain = 162 / 100, readNoise = 52 / 10\<rparr>,
          \<lparr>name = ''B'', saturation = 65535, gain = 157 / 100, readNoise = 48 / 10\<rparr>] [])
     = Inr [\<lparr>name = ''A'', saturation = 65535, gain = 162 / 100, readNoise = 52 / 10\<rparr>,
            \<lparr>name = ''B'', saturation = 65535, gain = 157 / 100, readNoise = 48 / 10\<rparr>]"
proof -
  have h: "list_all2 (\<lambda>a b. name a = name b \<and> amplifier.more a = amplifier.more b)
             example_detector
             [\<lparr>name = ''A'', saturation = 7, gain = 8, readNoise = 9\<rparr>,
              \<lparr>name = ''B'', saturation = 10, gain = 11, readNoise = 12\<rparr>]"
    by (simp add: example_detector_def)
  have r: "snd (tempCcd example_metadata (PyInt 65535) example_detector [])
     = Inr [\<lparr>name = ''A'', saturation = 65535, gain = 162 / 100, readNoise = 52 / 10\<rparr>,
            \<lparr>name = ''B'', saturation = 65535, gain = 157 / 100, readNoise = 48 / 10\<rparr>]"
    by code_simp
  from repair_deterministic [OF h, of example_metadata "PyInt 65535"] r
  show ?thesis by simp
qed

section \<open>The amplifier's own noise key is read before the fallback is considered\<close>

text \<open>
  Claim C9. For an amplifier named A the loop reads \<open>GAINA\<close> and then \<open>RDNOISEA\<close>
  before it looks at the value; for B, \<open>GAINB\<close> and then \<open>RDNOISEB\<close>. So when the
  amplifier's noise key is absent, the loop body ends with \<open>MissingMetadata\<close> whatever
  \<open>RDNOISE\<close> holds (for the noise key itself when the gain key is present), the run never
  succeeds, and a run that gets as far as this amplifier ends with \<open>MissingMetadata\<close>.
\<close>

theorem noise_key_read_first:
  assumes "detector e = pre @ amp # post"
    and "name amp = ''A'' \<and> gk = ''GAINA'' \<and> nk = ''RDNOISEA'' \<or>
         name amp = ''B'' \<and> gk = ''GAINB'' \<and> nk = ''RDNOISEB''"
    and "metadata e nk = None"
  shows "(\<exists>key. snd (tempAmp (metadata e) sat amp) = Inl (MissingMetadata key)) \<and>
         (\<forall>g. metadata e gk = Some g \<longrightarrow>
            tempAmp (metadata e) sat amp
              = ([RebuildAmplifier (name amp), GetScalar gk, GetScalar nk],
                 Inl (MissingMetadata nk))) \<and>
         (\<exists>err. snd (snd (run config e p bf)) = Inl err) \<and>
         (bf = None \<and> snd (saturate config (metadata e) (image e)) = Inr sat \<and>
          snd (tempCcd (metadata e) sat pre []) = Inr built \<longrightarrow>
            (\<exists>key. snd (snd (run config e p bf)) = Inl (MissingMetadata key)))"
proof -
  have body: "\<exists>key. snd (tempAmp (metadata e) s amp) = Inl (MissingMetadata key)" for s
    using assms(2,3)
    by (auto simp: snd_tempAmp_A snd_tempAmp_B noise_def split: option.splits)
  have events: "tempAmp (metadata e) sat amp
      = ([RebuildAmplifier (name amp), GetScalar gk, GetScalar nk], Inl (MissingMetadata nk))"
    if "metadata e gk = Some g" for g
    using assms(2,3) that
    by (auto simp: tempAmp_def and_then_def emit_def getScalar_def Let_def)
  from body have "\<And>s. \<exists>err. snd (tempAmp (metadata e) s amp) = Inl err" by blast
  from run_fails [OF assms(1) this, of config p bf]
  have fails: "\<exists>err. snd (snd (run config e p bf)) = Inl err" .
  have reach: "\<exists>key. snd (snd (run config e p bf)) = Inl (MissingMetadata key)"
    if "bf = None" "snd (saturate config (metadata e) (image e)) = Inr sat"
       "snd (tempCcd (metadata e) sat pre []) = Inr built"
  proof -
    from body [of sat] obtain key where
      "snd (tempAmp (metadata e) sat amp) = Inl (MissingMetadata key)" by blast
    from run_reaches [OF assms(1) that(2,3) this, of p] that(1) show ?thesis by blast
  qed
  from body [of sat] events fails reach show ?thesis by blast
qed

theorem noise_key_read_first_witness:
  "example_metadata ''RDNOISE'' = Some (PyFloat (52 / 10)) \<and>
   (\<exists>key. snd (snd (run default_config
        (example_exposure\<lparr>metadata := example_metadata(''RDNOISEA'' := None)\<rparr>) () None))
      = Inl (MissingMetadata key))"
proof -
  let ?e = "example_exposure\<lparr>metadata := example_metadata(''RDNOISEA'' := None)\<rparr>"
  have d: "detector ?e = [] @ \<lparr>name = ''A'', saturation = 0, gain = 1, readNoise = 0\<rparr>
             # [\<lparr>name = ''B'', saturation = 0, gain = 1, readNoise = 0\<rparr>]"
    by (simp add: example_exposure_def example_detector_def)
  have k: "name \<lparr>name = ''A'', saturation = 0, gain = 1, readNoise = 0\<rparr> = ''A'' \<and>
           ''GAINA'' = ''GAINA'' \<and> ''RDNOISEA'' = ''RDNOISEA'' \<or>
           name \<lparr>name = ''A'', saturation = 0, gain = 1, readNoise = 0\<rparr> = ''B'' \<and>
           ''GAINA'' = ''GAINB'' \<and> ''RDNOISEA'' = ''RDNOISEB''"
    by simp
  have m: "metadata ?e ''RDNOISEA'' = None" by simp
  have s: "snd (saturate default_config (metadata ?e) (image ?e)) = Inr (PyInt 65535)"
    by code_simp
  have b: "snd (tempCcd (metadata ?e) (PyInt 65535) [] []) = Inr []"
    by (simp add: ok_def)
  have r: "example_metadata ''RDNOISE'' = Some (PyFloat (52 / 10))"
    by code_simp
  from noise_key_read_first [OF d k m, of "PyInt 65535" default_config "()" None "[]"] s b
  have "\<exists>key. snd (snd (run default_config ?e () None)) = Inl (MissingMetadata key)"
    by blast
  with r show ?thesis by blast
qed

section \<open>Saturation estimated from the histogram\<close>




section \<open>Sign and kind of the estimate\<close>

text \<open>
  Claim C7, as amended. When the estimator returns, in the histogram branch the value is
  a Python integer, and it is not negative whenever \<open>safe\<close> is not negative; in the
  metadata branch the value is the scalar recorded under \<open>SATURATE\<close>, whatever that is.
\<close>

theorem saturation_value_kind:
  assumes "snd (saturate config md img) = Inr s"
  shows "ravel img \<noteq> [] \<and>
         (60000 < Max (set (ravel img)) \<longrightarrow>
            (\<exists>n. s = PyInt n \<and> (0 \<le> safe config \<longrightarrow> 0 \<le> n))) \<and>
         (Max (set (ravel img)) \<le> 60000 \<longrightarrow> md ''SATURATE'' = Some s)"
proof -
  have ne: "ravel img \<noteq> []"
  proof
    assume "ravel img = []"
    from saturate_empty [OF this, of config md] assms show False by simp
  qed
  have hist: "\<exists>n. s = PyInt n \<and> (0 \<le> safe config \<longrightarrow> 0 \<le> n)"
    if big: "60000 < Max (set (ravel img))"
  proof -
    from saturate_histogram_value [OF ne big, of md] obtain L where
      L: "60000 \<le> L" and
      v: "saturate config md img = ([NpMax, NpHistogram], Inr (PyInt (py_int (safe config * L))))"
      by blast
    from v assms have s: "s = PyInt (py_int (safe config * L))" by simp
    have "0 \<le> safe config \<longrightarrow> 0 \<le> safe config * L" using L by simp
    then have "0 \<le> safe config \<longrightarrow> 0 \<le> py_int (safe config * L)"
      using py_int_sign [of "safe config * L"] by blast
    with s show ?thesis by blast
  qed
  have meta: "md ''SATURATE'' = Some s" if small: "Max (set (ravel img)) \<le> 60000"
  proof (cases "md ''SATURATE''")
    case None
    with saturate_metadata [OF ne small, of config md] assms show ?thesis by simp
  next
    case (Some v)
    with saturate_metadata [OF ne small, of config md] assms show ?thesis by simp
  qed
  from ne hist meta show ?thesis by blast
qed

theorem saturation_value_kind_witness:
  "\<exists>n. 0 \<le> n \<and>
     snd (saturate default_config Map.empty [[61000, 65000], [65000, 65000]]) = Inr (PyInt n)"
proof -
  have v: "snd (saturate default_config Map.empty [[61000, 65000], [65000, 65000]])
             = Inr (PyInt 61703)"
    by code_simp
  have big: "60000 < Max (set (ravel [[61000, 65000], [65000, 65000::real]]))"
    by (simp add: ravel_def)
  have pos: "0 \<le> safe default_config"
    by (simp add: default_config_def)
  from saturation_value_kind [OF v] big pos
  have "\<exists>n. PyInt 61703 = PyInt n \<and> 0 \<le> n" by blast
  then obtain n where "PyInt 61703 = PyInt n" "0 \<le> n" by blast
  with v show ?thesis by auto
qed

text \<open>
  The claim as the specification states it promises a non-negative integer in both
  branches. With \<open>safe = -1\<close> and a single pixel of 60001 the histogram branch yields
  \<open>-60001\<close>; with pixels below 60000 and \<open>SATURATE = 65535.5\<close> the metadata branch yields
  the float \<open>65535.5\<close>.
\<close>

theorem saturation_value_kind_counterexample:
  "snd (saturate \<lparr>safe = - 1\<rparr> Map.empty [[60001]]) = Inr (PyInt (- 60001)) \<and>
   snd (saturate default_config [''SATURATE'' \<mapsto> PyFloat (131071 / 2)] [[100]])
     = Inr (PyFloat (131071 / 2))"
  by code_simp

section \<open>The safety fraction is used as it is\<close>



end
